theory Spec2Isabelle
  imports Complex_Main "HOL-Library.Log_Nat"
begin

section \<open>Numbers\<close>

text \<open>
  The JavaScript sources compute with \<^verbatim>\<open>Number\<close>, the binary64 format of IEEE 754.
  A finite \<^verbatim>\<open>Number\<close> is modelled by its exact value, a rational number, and every
  arithmetic operation of the source by the exact operation followed by the rounding
  of the format: to the nearest representable value, a tie going to the one with an
  even significand. \<^verbatim>\<open>NaN\<close>, the infinities (amounts from \<open>2 ^ 1024\<close> on) and the
  sign of zero are outside the model.
\<close>

definition pow2 :: "int \<Rightarrow> rat" where
  "pow2 k = (if 0 \<le> k then 2 ^ nat k else 1 / 2 ^ nat (- k))"

text \<open>The binary exponent of a positive rational: \<open>pow2 (ilog2 a) \<le> a < pow2 (ilog2 a + 1)\<close>.\<close>

definition ilog2 :: "rat \<Rightarrow> int" where
  "ilog2 a =
     (case quotient_of a of
        (p, q) \<Rightarrow> (let d = bitlen p - bitlen q in if pow2 d \<le> a then d else d - 1))"

definition round_half_even :: "rat \<Rightarrow> int" where
  "round_half_even m =
     (let f = \<lfloor>m\<rfloor>; r = m - of_int f
      in if r < 1 / 2 then f else if 1 / 2 < r then f + 1 else if even f then f else f + 1)"

text \<open>
  Rounding to binary64: 53 significant bits, and below \<open>2 ^ - 1022\<close> the fixed spacing
  \<open>2 ^ - 1074\<close> of the subnormal numbers.
\<close>

definition fl :: "rat \<Rightarrow> rat" where
  "fl x =
     (if x = 0 then 0
      else (let a = \<bar>x\<bar>;
                u = pow2 (max (ilog2 a) (- 1022) - 52)
            in sgn x * (of_int (round_half_even (a / u)) * u)))"

text \<open>The operators \<^verbatim>\<open>+\<close>, \<^verbatim>\<open>-\<close>, \<^verbatim>\<open>*\<close> and \<^verbatim>\<open>/\<close> on two numbers.\<close>

definition js_add :: "rat \<Rightarrow> rat \<Rightarrow> rat" where
  "js_add a b = fl (a + b)"

definition js_sub :: "rat \<Rightarrow> rat \<Rightarrow> rat" where
  "js_sub a b = fl (a - b)"

definition js_mul :: "rat \<Rightarrow> rat \<Rightarrow> rat" where
  "js_mul a b = fl (a * b)"

definition js_div :: "rat \<Rightarrow> rat \<Rightarrow> rat" where
  "js_div a b = fl (a / b)"

text \<open>
  \<^verbatim>\<open>x.toFixed(2)\<close>, as the value that the digits denote: \<^verbatim>\<open>toFixed\<close> takes the
  integer \<open>n\<close> for which \<open>n / 100 - x\<close> is closest to zero, the larger \<open>n\<close> when there
  are two; a negative \<open>x\<close> is negated first and the sign is put back in front of the
  digits. \<^verbatim>\<open>parseFloat\<close> of a decimal string, and a decimal literal of the source
  such as \<^verbatim>\<open>0.08\<close>, is the number nearest to the value that the digits denote.
\<close>

definition toFixed2 :: "rat \<Rightarrow> rat" where
  "toFixed2 x =
     (if x < 0 then - (of_int \<lfloor>(- x) * 100 + 1 / 2\<rfloor> / 100)
      else of_int \<lfloor>x * 100 + 1 / 2\<rfloor> / 100)"

definition parseFloat :: "rat \<Rightarrow> rat" where
  "parseFloat d = fl d"

text \<open>
  Rounding half-up to two decimal places, in the words of the specification: the
  nearest multiple of \<open>1/100\<close>, a tie going to the larger one.
\<close>

definition round_half_up2 :: "rat \<Rightarrow> rat" where
  "round_half_up2 x = of_int \<lfloor>x * 100 + 1 / 2\<rfloor> / 100"

section \<open>Strings and numbers\<close>

text \<open>
  The quantity of a request body as the router hands it to \<open>addItem\<close>: the validator
  \<^verbatim>\<open>isInt\<close> accepts a JSON number and also a JSON string of decimal digits, and the
  router applies no conversion. (Strings with a sign pass the validator too; they are
  outside the model.)
\<close>

datatype body_value = Num int | Str string

text \<open>The decimal digits of a natural number, and \<^verbatim>\<open>String(n)\<close> for an integer.\<close>

fun digits :: "nat \<Rightarrow> string" where
  "digits n =
     (if n < 10 then [char_of (48 + n)] else digits (n div 10) @ [char_of (48 + n mod 10)])"

declare digits.simps [simp del]

definition String_of :: "int \<Rightarrow> string" where
  "String_of n = (if n < 0 then CHR ''-'' # digits (nat (- n)) else digits (nat n))"

text \<open>The integer that a string of decimal digits, with or without a minus sign, denotes.\<close>

definition digits_value :: "string \<Rightarrow> int" where
  "digits_value s = foldl (\<lambda>acc ch. 10 * acc + (of_char ch - 48)) 0 s"

definition Number_of :: "string \<Rightarrow> int" where
  "Number_of s = (case s of [] \<Rightarrow> 0
     | ch # rest \<Rightarrow> if ch = CHR ''-'' then - digits_value rest else digits_value s)"

text \<open>
  \<^verbatim>\<open>n + v\<close> for a number \<open>n\<close>: the sum when \<open>v\<close> is a number, the concatenation of
  the two strings when \<open>v\<close> is a string.
\<close>

fun js_plus :: "int \<Rightarrow> body_value \<Rightarrow> body_value" where
  "js_plus n (Num m) = Num (n + m)"
| "js_plus n (Str s) = Str (String_of n @ s)"

text \<open>The cast that the schema type \<^verbatim>\<open>Number\<close> applies to a value assigned to a field.\<close>

fun castNumber :: "body_value \<Rightarrow> int" where
  "castNumber (Num m) = m"
| "castNumber (Str s) = Number_of s"

section \<open>Arrays\<close>

text \<open>\<^verbatim>\<open>Array.prototype.findIndex\<close>; the result \<^verbatim>\<open>-1\<close> of the source is \<open>None\<close>.\<close>

fun findIndex :: "('a \<Rightarrow> bool) \<Rightarrow> 'a list \<Rightarrow> nat option" where
  "findIndex P [] = None"
| "findIndex P (x # xs) =
     (if P x then Some 0
      else (case findIndex P xs of None \<Rightarrow> None | Some i \<Rightarrow> Some (Suc i)))"

text \<open>\<^verbatim>\<open>xs.splice(i, 1)\<close>: the list without its element at index \<open>i\<close>.\<close>

definition splice1 :: "nat \<Rightarrow> 'a list \<Rightarrow> 'a list" where
  "splice1 i xs = take i xs @ drop (Suc i) xs"

section \<open>Product (models/Product.js)\<close>

text \<open>The fields of a product document that the cart reads.\<close>

record Product =
  p_id :: string
  p_name :: string
  p_price :: rat
  p_image :: "string option"
  discountPercentage :: rat

text \<open>
  The virtual \<^verbatim>\<open>discountedPrice\<close> of the product schema,
  \<^verbatim>\<open>this.price * (1 - this.discountPercentage / 100)\<close>.
\<close>

definition p_discountedPrice :: "Product \<Rightarrow> rat" where
  "p_discountedPrice p = js_mul (p_price p) (js_sub 1 (js_div (discountPercentage p) 100))"

section \<open>Cart (models/Cart.js)\<close>

text \<open>
  The fields of the two schemas, without the identifiers and timestamps that the
  database layer adds. An absent \<^verbatim>\<open>couponCode\<close> or \<^verbatim>\<open>image\<close> (\<^verbatim>\<open>undefined\<close> or
  \<^verbatim>\<open>null\<close>) is \<open>None\<close>.
\<close>

record CartItem =
  product :: string
  name :: string
  price :: rat
  discountedPrice :: rat
  quantity :: int
  image :: "string option"

record Cart =
  user :: string
  items :: "CartItem list"
  subtotal :: rat
  tax :: rat
  shippingCost :: rat
  total :: rat
  couponCode :: "string option"
  couponDiscount :: rat

definition TAX_RATE :: rat where
  "TAX_RATE = parseFloat (8 / 100)"

definition SHIPPING_THRESHOLD :: rat where
  "SHIPPING_THRESHOLD = 50"

definition BASE_SHIPPING :: rat where
  "BASE_SHIPPING = parseFloat (599 / 100)"

text \<open>
  \<^verbatim>\<open>calculateTotals\<close> assigns the four fields one after the other; each assignment
  reads the fields assigned before it. The quantity of a line item is an integer (as a
  number it is exact below \<open>2 ^ 53\<close>).
\<close>

definition calculateTotals :: "Cart \<Rightarrow> Cart" where
  "calculateTotals this =
     (let this1 = this\<lparr>subtotal :=
            foldl (\<lambda>sum item. js_add sum (js_mul (discountedPrice item) (of_int (quantity item))))
              0 (items this)\<rparr>;
          this2 = this1\<lparr>subtotal := parseFloat (toFixed2 (subtotal this1))\<rparr>;
          this3 = this2\<lparr>shippingCost :=
            (if subtotal this2 > SHIPPING_THRESHOLD then 0 else BASE_SHIPPING)\<rparr>;
          this4 = this3\<lparr>tax := parseFloat (toFixed2 (js_mul (subtotal this3) TAX_RATE))\<rparr>
      in this4\<lparr>total :=
            parseFloat (toFixed2
              (js_sub (js_add (js_add (subtotal this4) (tax this4)) (shippingCost this4))
                 (couponDiscount this4)))\<rparr>)"

text \<open>
  \<^verbatim>\<open>productData.discountedPrice || productData.price\<close>: the right operand when the
  left one is falsy, which for a number is zero. The router always passes the quantity,
  so the default of the parameter is not modelled. In the branch of an existing item
  the source applies \<^verbatim>\<open>+=\<close> to the stored number and the quantity as it came, and
  the schema casts the result; in the other branch the schema casts the quantity.
\<close>

definition addItem :: "Cart \<Rightarrow> Product \<Rightarrow> body_value \<Rightarrow> Cart" where
  "addItem this productData qty =
     calculateTotals
       (case findIndex (\<lambda>item. product item = p_id productData) (items this) of
          Some existingItemIndex \<Rightarrow>
            this\<lparr>items := (items this)[existingItemIndex :=
              (items this ! existingItemIndex)
                \<lparr>quantity :=
                   castNumber (js_plus (quantity (items this ! existingItemIndex)) qty)\<rparr>]\<rparr>
        | None \<Rightarrow>
            this\<lparr>items := items this @
              [\<lparr>product = p_id productData,
                name = p_name productData,
                price = p_price productData,
                discountedPrice =
                  (if p_discountedPrice productData \<noteq> 0 then p_discountedPrice productData
                   else p_price productData),
                quantity = castNumber qty,
                image = p_image productData\<rparr>]\<rparr>)"

text \<open>
  The two methods that throw return the error, if any, together with the cart as the
  call leaves it. The quantity of \<open>updateItemQuantity\<close> is an integer: a string of
  digits from the request body acts here as the number it denotes, since both the
  comparison with 0 and the cast of the assigned value convert it.
\<close>

datatype error = ItemNotFound

definition updateItemQuantity :: "Cart \<Rightarrow> string \<Rightarrow> int \<Rightarrow> error option \<times> Cart" where
  "updateItemQuantity this productId qty =
     (case findIndex (\<lambda>item. product item = productId) (items this) of
        None \<Rightarrow> (Some ItemNotFound, this)
      | Some itemIndex \<Rightarrow>
          (None, calculateTotals
            (if qty \<le> 0 then this\<lparr>items := splice1 itemIndex (items this)\<rparr>
             else this\<lparr>items := (items this)[itemIndex :=
               (items this ! itemIndex)\<lparr>quantity := qty\<rparr>]\<rparr>)))"

definition removeItem :: "Cart \<Rightarrow> string \<Rightarrow> error option \<times> Cart" where
  "removeItem this productId =
     (case findIndex (\<lambda>item. product item = productId) (items this) of
        None \<Rightarrow> (Some ItemNotFound, this)
      | Some itemIndex \<Rightarrow>
          (None, calculateTotals (this\<lparr>items := splice1 itemIndex (items this)\<rparr>)))"

definition clearCart :: "Cart \<Rightarrow> Cart" where
  "clearCart this =
     this\<lparr>items := [], subtotal := 0, tax := 0, shippingCost := 0, total := 0,
          couponCode := None, couponDiscount := 0\<rparr>"

text \<open>
  The document that \<^verbatim>\<open>findOrCreateByUser\<close> creates for a user without a cart: no
  items, and the defaults of the schema in the other fields.
\<close>

definition new_cart :: "string \<Rightarrow> Cart" where
  "new_cart uid =
     \<lparr>user = uid, items = [], subtotal = 0, tax = 0, shippingCost = 0, total = 0,
      couponCode = None, couponDiscount = 0\<rparr>"

section \<open>Coupon handlers (routers/cart.js)\<close>

text \<open>
  A handler is modelled on the caller's cart document: it returns the HTTP status, the
  body, and the cart as it is stored afterwards. \<^verbatim>\<open>save\<close> stores the document it is
  called on; the authentication middleware and the database are outside the model.
\<close>

datatype 'd body = Doc 'd | Errors "string list" | Message string

definition applyCoupon :: "string \<Rightarrow> Cart \<Rightarrow> (nat \<times> Cart body) \<times> Cart" where
  "applyCoupon code cart =
     (if code = [] then ((400, Errors [''Coupon code is required'']), cart)
      else if code = ''WELCOME10'' then
        (let cart' = calculateTotals
               (cart\<lparr>couponCode := Some code,
                     couponDiscount :=
                       parseFloat (toFixed2 (js_mul (subtotal cart) (parseFloat (1 / 10))))\<rparr>)
         in ((200, Doc cart'), cart'))
      else if code = ''FREESHIP'' then
        (let cart' = calculateTotals
               (cart\<lparr>couponCode := Some code, couponDiscount := shippingCost cart\<rparr>)
         in ((200, Doc cart'), cart'))
      else ((400, Message ''Invalid coupon code''), cart))"

definition removeCoupon :: "Cart \<Rightarrow> (nat \<times> Cart body) \<times> Cart" where
  "removeCoupon cart =
     (let cart' = calculateTotals (cart\<lparr>couponCode := None, couponDiscount := 0\<rparr>)
      in ((200, Doc cart'), cart'))"

section \<open>Cancelling an order (routers/order.js)\<close>

text \<open>
  The four values of the \<^verbatim>\<open>status\<close> enumeration of the order schema
  (\<^verbatim>\<open>"In Transit"\<close> is \<open>In_Transit\<close>), and the fields of an order that the status
  handlers read or write; the handler below touches no other field.
\<close>

datatype order_status = Processing | In_Transit | Delivered | Cancelled

record Order =
  userId :: string
  status :: order_status
  trackingNumber :: "string option"

text \<open>
  The collection of orders is a map from identifiers to documents; the handler returns
  the response and the collection as it is afterwards. The checks come in the order of
  the source: the order exists, the caller owns it, it is not delivered. A failure of
  the database itself (the status 500 of the \<^verbatim>\<open>catch\<close> block) is outside the model.
\<close>

definition cancel :: "(string \<rightharpoonup> Order) \<Rightarrow> string \<Rightarrow> string
    \<Rightarrow> (nat \<times> Order body) \<times> (string \<rightharpoonup> Order)" where
  "cancel orders req_id req_user =
     (case orders req_id of
        None \<Rightarrow> ((404, Message ''Order not found''), orders)
      | Some order \<Rightarrow>
          if userId order \<noteq> req_user then ((403, Message ''Unauthorized''), orders)
          else if status order = Delivered then
            ((400, Message ''Cannot cancel a delivered order''), orders)
          else (let order' = order\<lparr>status := Cancelled\<rparr>
                in ((200, Doc order'), orders(req_id \<mapsto> order'))))"

section \<open>Properties of carts\<close>

text \<open>The sum that \<open>calculateTotals\<close> accumulates over the line items.\<close>

definition items_sum :: "CartItem list \<Rightarrow> rat" where
  "items_sum xs =
     foldl (\<lambda>sum item. js_add sum (js_mul (discountedPrice item) (of_int (quantity item)))) 0 xs"

text \<open>The object literal that \<open>addItem\<close> pushes for a product not yet in the cart.\<close>

definition new_item :: "Product \<Rightarrow> body_value \<Rightarrow> CartItem" where
  "new_item p q =
     \<lparr>product = p_id p, name = p_name p, price = p_price p,
      discountedPrice = (if p_discountedPrice p \<noteq> 0 then p_discountedPrice p else p_price p),
      quantity = castNumber q, image = p_image p\<rparr>"

text \<open>
  The bounds that the schema puts on a line item: \<^verbatim>\<open>min: 0\<close> on both prices and
  \<^verbatim>\<open>min: 1\<close> on the quantity.
\<close>

definition valid_item :: "CartItem \<Rightarrow> bool" where
  "valid_item item \<longleftrightarrow> 0 \<le> price item \<and> 0 \<le> discountedPrice item \<and> 1 \<le> quantity item"

text \<open>
  The stored totals are the ones that the items and the other stored fields give: the
  subtotal is the rounded sum over the items of the cart, the tax is the rounded tax
  on the stored subtotal, and the total is the rounded sum of the stored subtotal, tax
  and shipping cost less the stored coupon discount.
\<close>

definition totals_fresh :: "Cart \<Rightarrow> bool" where
  "totals_fresh c \<longleftrightarrow>
     subtotal c = parseFloat (toFixed2 (items_sum (items c))) \<and>
     tax c = parseFloat (toFixed2 (js_mul (subtotal c) TAX_RATE)) \<and>
     total c =
       parseFloat (toFixed2
         (js_sub (js_add (js_add (subtotal c) (tax c)) (shippingCost c)) (couponDiscount c)))"

text \<open>What every cart built by the handlers satisfies: valid line items.\<close>

definition cart_ok :: "Cart \<Rightarrow> bool" where
  "cart_ok c \<longleftrightarrow> (\<forall>item\<in>set (items c). valid_item item)"

section \<open>Example documents\<close>

definition tea :: Product where
  "tea = \<lparr>p_id = ''p1'', p_name = ''Tea'', p_price = 30, p_image = None,
           discountPercentage = 0\<rparr>"

text \<open>The same product after its name, price and discount were edited.\<close>

definition tea_repriced :: Product where
  "tea_repriced = \<lparr>p_id = ''p1'', p_name = ''Green tea'', p_price = 35, p_image = None,
           discountPercentage = 10\<rparr>"

definition free_sample :: Product where
  "free_sample = \<lparr>p_id = ''p7'', p_name = ''Sample'', p_price = 20, p_image = None,
           discountPercentage = 100\<rparr>"

text \<open>Products whose discounted price is not a decimal that binary64 holds exactly.\<close>

definition scarf :: Product where
  "scarf = \<lparr>p_id = ''p8'', p_name = ''Scarf'', p_price = 137 / 2, p_image = None,
           discountPercentage = 27\<rparr>"

definition pen :: Product where
  "pen = \<lparr>p_id = ''p6'', p_name = ''Pen'', p_price = 7 / 4, p_image = None,
           discountPercentage = 10\<rparr>"

definition tea_cart :: Cart where
  "tea_cart =
     \<lparr>user = ''u1'',
      items = [\<lparr>product = ''p1'', name = ''Tea'', price = 30, discountedPrice = 30,
                quantity = 2, image = None\<rparr>],
      subtotal = 60, tax = parseFloat (48 / 10), shippingCost = 0,
      total = parseFloat (648 / 10), couponCode = None, couponDiscount = 0\<rparr>"

definition one_tea_cart :: Cart where
  "one_tea_cart =
     \<lparr>user = ''u1'',
      items = [\<lparr>product = ''p1'', name = ''Tea'', price = 30, discountedPrice = 30,
                quantity = 1, image = None\<rparr>],
      subtotal = 30, tax = parseFloat (24 / 10), shippingCost = parseFloat (599 / 100),
      total = parseFloat (3839 / 100), couponCode = None, couponDiscount = 0\<rparr>"

definition mug_cart :: Cart where
  "mug_cart =
     \<lparr>user = ''u3'',
      items = [\<lparr>product = ''p2'', name = ''Mug'', price = 25, discountedPrice = 25,
                quantity = 4, image = None\<rparr>],
      subtotal = 100, tax = 8, shippingCost = 0, total = 108,
      couponCode = None, couponDiscount = 0\<rparr>"

text \<open>One ribbon at 10.75, a price that binary64 holds exactly.\<close>

definition ribbon_cart :: Cart where
  "ribbon_cart =
     \<lparr>user = ''u6'',
      items = [\<lparr>product = ''p3'', name = ''Ribbon'', price = 43 / 4, discountedPrice = 43 / 4,
                quantity = 1, image = None\<rparr>],
      subtotal = 43 / 4, tax = parseFloat (86 / 100), shippingCost = parseFloat (599 / 100),
      total = parseFloat (176 / 10), couponCode = None, couponDiscount = 0\<rparr>"

text \<open>Four mugs at half price: a subtotal of exactly 50, totals not yet computed.\<close>

definition fifty_cart :: Cart where
  "fifty_cart =
     \<lparr>user = ''u2'',
      items = [\<lparr>product = ''p2'', name = ''Mug'', price = 25, discountedPrice = 25 / 2,
                quantity = 4, image = None\<rparr>],
      subtotal = 0, tax = 0, shippingCost = 0, total = 0,
      couponCode = None, couponDiscount = 0\<rparr>"

text \<open>
  Three sweets at 0.045 each, the price stored as the number nearest to 0.045; totals
  not yet computed.
\<close>

definition sweets_cart :: Cart where
  "sweets_cart =
     \<lparr>user = ''u5'',
      items = [\<lparr>product = ''p4'', name = ''Sweet'', price = parseFloat (45 / 1000),
                discountedPrice = parseFloat (45 / 1000), quantity = 3, image = None\<rparr>],
      subtotal = 0, tax = 0, shippingCost = 0, total = 0,
      couponCode = None, couponDiscount = 0\<rparr>"

text \<open>One item stored at the number nearest to 1.005; totals not yet computed.\<close>

definition badge_cart :: Cart where
  "badge_cart =
     \<lparr>user = ''u4'',
      items = [\<lparr>product = ''p5'', name = ''Badge'', price = parseFloat (1005 / 1000),
                discountedPrice = parseFloat (1005 / 1000), quantity = 1, image = None\<rparr>],
      subtotal = 0, tax = 0, shippingCost = 0, total = 0,
      couponCode = None, couponDiscount = 0\<rparr>"

definition example_orders :: "string \<rightharpoonup> Order" where
  "example_orders =
     [''o1'' \<mapsto> \<lparr>userId = ''u1'', status = Delivered, trackingNumber = None\<rparr>,
      ''o2'' \<mapsto> \<lparr>userId = ''u1'', status = Cancelled, trackingNumber = None\<rparr>,
      ''o3'' \<mapsto> \<lparr>userId = ''u1'', status = In_Transit, trackingNumber = Some ''T1''\<rparr>]"

section \<open>Rounding to binary64\<close>

lemma floor_numeral_quot [simp]:
  "\<lfloor>(numeral a :: rat) / numeral b\<rfloor> = numeral a div numeral b"
  using floor_divide_of_int_eq [of "numeral a" "numeral b", where ?'a = rat] by simp

lemma floor_neg_numeral_quot [simp]:
  "\<lfloor>- ((numeral a :: rat) / numeral b)\<rfloor> = - numeral a div numeral b"
  using floor_divide_of_int_eq [of "- numeral a" "numeral b", where ?'a = rat] by simp

lemma floor_one_quot [simp]: "\<lfloor>(1 :: rat) / numeral b\<rfloor> = 1 div numeral b"
  using floor_divide_of_int_eq [of 1 "numeral b", where ?'a = rat] by simp

lemma pow2_powi: "pow2 k = 2 powi k"
  by (simp add: pow2_def power_int_def power_one_over [symmetric] inverse_eq_divide)

lemma pow2_pos: "0 < pow2 k"
  by (simp add: pow2_powi)

lemma pow2_less_exp: "pow2 i \<le> x \<Longrightarrow> x < pow2 j \<Longrightarrow> i < j"
proof (rule ccontr)
  assume a: "pow2 i \<le> x" "x < pow2 j" and "\<not> i < j"
  then have "j \<le> i" by simp
  then have "pow2 j \<le> pow2 i"
    unfolding pow2_powi by (intro power_int_increasing) simp_all
  with a show False by simp
qed

lemma bitlen_pow2_bounds:
  assumes "0 < p"
  shows "pow2 (bitlen p - 1) \<le> of_int p" and "of_int p < pow2 (bitlen p)"
proof -
  from bitlen_bounds [OF assms]
  have lo: "2 ^ nat (bitlen p - 1) \<le> p" and hi: "p < 2 ^ nat (bitlen p)" by simp_all
  have b: "1 \<le> bitlen p" using assms by (simp add: bitlen_alt_def)
  have "(of_int (2 ^ nat (bitlen p - 1)) :: rat) \<le> of_int p" using lo by (simp only: of_int_le_iff)
  then show "pow2 (bitlen p - 1) \<le> of_int p" using b by (simp add: pow2_def)
  have "(of_int p :: rat) < of_int (2 ^ nat (bitlen p))" using hi by (simp only: of_int_less_iff)
  then show "of_int p < pow2 (bitlen p)" using b by (simp add: pow2_def)
qed

lemma ilog2_eqI:
  assumes lo: "pow2 e \<le> a" and hi: "a < pow2 (e + 1)"
  shows "ilog2 a = e"
proof -
  obtain p q where pq: "quotient_of a = (p, q)" by (cases "quotient_of a")
  then have q: "0 < q" and a: "a = of_int p / of_int q"
    by (simp_all add: quotient_of_denom_pos quotient_of_div)
  have "0 < a" using lo pow2_pos [of e] by simp
  then have p: "0 < p" using q a by (simp add: zero_less_divide_iff)
  let ?d = "bitlen p - bitlen q"
  have qr: "(0 :: rat) < of_int q" using q by simp
  have "a < pow2 (bitlen p) / pow2 (bitlen q - 1)"
    unfolding a using bitlen_pow2_bounds [OF p] bitlen_pow2_bounds [OF q] p pow2_pos
    by (intro frac_less) simp_all
  then have up: "a < pow2 (?d + 1)"
    by (simp add: pow2_powi power_int_diff [symmetric] algebra_simps)
  have "pow2 (bitlen p - 1) / pow2 (bitlen q) \<le> a"
    unfolding a using bitlen_pow2_bounds [OF p] bitlen_pow2_bounds [OF q] p qr pow2_pos
    by (intro frac_le) (simp_all add: less_imp_le)
  then have low: "pow2 (?d - 1) \<le> a"
    by (simp add: pow2_powi power_int_diff [symmetric] algebra_simps)
  show ?thesis
  proof (cases "pow2 ?d \<le> a")
    case True
    have "?d < e + 1" using True hi by (rule pow2_less_exp)
    moreover have "e < ?d + 1" using lo up by (rule pow2_less_exp)
    ultimately show ?thesis using True by (simp add: ilog2_def pq Let_def)
  next
    case False
    then have "a < pow2 ?d" by simp
    with lo have "e < ?d" by (rule pow2_less_exp)
    moreover have "?d - 1 < e + 1" using low hi by (rule pow2_less_exp)
    ultimately show ?thesis using False by (simp add: ilog2_def pq Let_def)
  qed
qed

lemma fl_eqI:
  assumes "x \<noteq> 0" and "pow2 e \<le> \<bar>x\<bar>" and "\<bar>x\<bar> < pow2 (e + 1)"
  shows "fl x =
     sgn x * (of_int (round_half_even (\<bar>x\<bar> / pow2 (max e (- 1022) - 52))) *
       pow2 (max e (- 1022) - 52))"
  using assms(1) ilog2_eqI [OF assms(2,3)] by (simp add: fl_def Let_def)

text \<open>
  Evaluating \<open>fl\<close> at a numeral: the binary exponent is supplied, the two bounds on
  it and the rounding of the significand are computed.
\<close>

lemmas fl_exps =
  fl_eqI [where e = "- 7"] fl_eqI [where e = "- 6"] fl_eqI [where e = "- 5"]
  fl_eqI [where e = "- 4"] fl_eqI [where e = "- 3"] fl_eqI [where e = "- 2"]
  fl_eqI [where e = "- 1"] fl_eqI [where e = 0] fl_eqI [where e = 1] fl_eqI [where e = 2]
  fl_eqI [where e = 3] fl_eqI [where e = 4] fl_eqI [where e = 5] fl_eqI [where e = 6]

lemmas js_eval =
  js_add_def js_sub_def js_mul_def js_div_def parseFloat_def toFixed2_def
  TAX_RATE_def SHIPPING_THRESHOLD_def BASE_SHIPPING_def
  fl_exps pow2_def round_half_even_def Let_def

lemma fl_0 [simp]: "fl 0 = 0"
  by (simp add: fl_def)

text \<open>
  Known values: 0.1 is \<^verbatim>\<open>0x3FB999999999999A\<close>; \<open>2 ^ 53 + 1\<close> lies halfway between two
  numbers and goes to the even one, \<open>2 ^ 53 + 3\<close> likewise; a number is left as it is.
\<close>

lemma fl_examples:
  "fl (1 / 10) = 3602879701896397 / 36028797018963968"
  "fl 9007199254740993 = 9007199254740992"
  "fl 9007199254740995 = 9007199254740996"
  "fl (3602879701896397 / 36028797018963968) = 3602879701896397 / 36028797018963968"
  "fl (- (1 / 10)) = - (3602879701896397 / 36028797018963968)"
  by (simp_all add: fl_eqI [where e = "- 4"] fl_eqI [where e = 53] pow2_def
      round_half_even_def Let_def)

lemma round_half_even_nonneg: "0 \<le> m \<Longrightarrow> 0 \<le> round_half_even m"
  by (simp add: round_half_even_def Let_def)

lemma fl_nonneg: "0 \<le> x \<Longrightarrow> 0 \<le> fl x"
proof (cases "x = 0")
  case True
  then show ?thesis by simp
next
  case False
  assume "0 \<le> x"
  with False have x: "0 < x" by simp
  let ?u = "pow2 (max (ilog2 \<bar>x\<bar>) (- 1022) - 52)"
  have "0 \<le> \<bar>x\<bar> / ?u" using pow2_pos [of "max (ilog2 \<bar>x\<bar>) (- 1022) - 52"] by simp
  then have "0 \<le> round_half_even (\<bar>x\<bar> / ?u)" by (rule round_half_even_nonneg)
  then have "0 \<le> of_int (round_half_even (\<bar>x\<bar> / ?u)) * ?u"
    using pow2_pos [of "max (ilog2 \<bar>x\<bar>) (- 1022) - 52"] by simp
  then show ?thesis using x False by (simp add: fl_def Let_def)
qed

lemma js_nonneg:
  "0 \<le> a \<Longrightarrow> 0 \<le> b \<Longrightarrow> 0 \<le> js_add a b"
  "0 \<le> a \<Longrightarrow> 0 \<le> b \<Longrightarrow> 0 \<le> js_mul a b"
  "0 \<le> a \<Longrightarrow> 0 \<le> parseFloat a"
  by (simp_all add: js_add_def js_mul_def parseFloat_def fl_nonneg)

lemma js_zero [simp]:
  "js_add 0 0 = 0" "js_sub 0 0 = 0" "js_mul 0 b = 0" "js_mul a 0 = 0" "parseFloat 0 = 0"
  by (simp_all add: js_add_def js_sub_def js_mul_def parseFloat_def)

section \<open>Rounding to two decimal places\<close>

lemma toFixed2_0 [simp]: "toFixed2 0 = 0"
  by (simp add: toFixed2_def)

text \<open>On an amount that is not negative, \<^verbatim>\<open>toFixed\<close> rounds half-up.\<close>

lemma toFixed2_nonneg: "0 \<le> x \<Longrightarrow> toFixed2 x = round_half_up2 x"
  by (simp add: toFixed2_def round_half_up2_def)

lemma toFixed2_ge0: "0 \<le> x \<Longrightarrow> 0 \<le> toFixed2 x"
  by (simp add: toFixed2_def)

text \<open>On a negative amount it rounds the magnitude half-up, a tie away from zero.\<close>

lemma toFixed2_magnitude:
  "toFixed2 x = (if x < 0 then - round_half_up2 (- x) else round_half_up2 x)"
  by (simp add: toFixed2_def round_half_up2_def)

lemma toFixed2_negative_tie:
  "toFixed2 (- (1 / 8)) = - (13 / 100)" "round_half_up2 (- (1 / 8)) = - (12 / 100)"
  by (simp_all add: toFixed2_def round_half_up2_def)

section \<open>Strings and numbers\<close>

text \<open>\<^verbatim>\<open>2 + "3"\<close> is \<^verbatim>\<open>"23"\<close>, which the schema casts to 23.\<close>

lemma two_plus_string_three:
  "String_of 2 @ ''3'' = ''23''" "Number_of ''23'' = 23" "castNumber (js_plus 2 (Str ''3'')) = 23"
  by code_simp+

lemma castNumber_string_three: "Number_of ''3'' = 3" "castNumber (Str ''3'') = 3"
  by code_simp+

section \<open>Searching and updating the item list\<close>

lemma findIndex_None: "findIndex P xs = None \<longleftrightarrow> (\<forall>x\<in>set xs. \<not> P x)"
  by (induction xs) (auto split: option.splits)

text \<open>\<open>findIndex\<close> returns the first index at which the predicate holds.\<close>

lemma findIndex_Some:
  "findIndex P xs = Some i \<longleftrightarrow> i < length xs \<and> P (xs ! i) \<and> (\<forall>j<i. \<not> P (xs ! j))"
proof (induction xs arbitrary: i)
  case Nil
  then show ?case by simp
next
  case (Cons x xs)
  show ?case
  proof (cases "P x")
    case True
    then show ?thesis by (cases i) auto
  next
    case False
    show ?thesis
    proof (cases i)
      case 0
      with False show ?thesis by (auto split: option.splits)
    next
      case (Suc k)
      have "(\<forall>j<Suc k. \<not> P ((x # xs) ! j)) \<longleftrightarrow> (\<forall>j<k. \<not> P (xs ! j))"
        using False by (auto simp: less_Suc_eq_0_disj)
      with Suc False Cons.IH [of k] show ?thesis by (auto split: option.splits)
    qed
  qed
qed

lemma findIndex_append_new:
  "\<forall>x\<in>set xs. \<not> P x \<Longrightarrow> P y \<Longrightarrow> findIndex P (xs @ [y]) = Some (length xs)"
  by (induction xs) simp_all

lemma findIndex_map_cong: "map P xs = map P ys \<Longrightarrow> findIndex P xs = findIndex P ys"
proof (induction xs arbitrary: ys)
  case Nil
  then show ?case by simp
next
  case (Cons x xs)
  then obtain y ys' where ys: "ys = y # ys'" by (cases ys) auto
  with Cons.prems have "P x = P y" and "map P xs = map P ys'" by simp_all
  with Cons.IH [of ys'] show ?case by (simp add: ys)
qed

lemma findIndex_update:
  assumes "i < length xs" and "P y = P (xs ! i)"
  shows "findIndex P (xs[i := y]) = findIndex P xs"
proof (rule findIndex_map_cong)
  have "map P (xs[i := y]) = (map P xs)[i := map P xs ! i]"
    using assms by (simp add: map_update)
  then show "map P (xs[i := y]) = map P xs" by simp
qed

lemma set_splice1: "set (splice1 i xs) \<subseteq> set xs"
  unfolding splice1_def using set_take_subset [of i xs] set_drop_subset [of "Suc i" xs]
  by auto


section \<open>Recomputing the totals\<close>

text \<open>The four assignments of \<open>calculateTotals\<close>, each written out in full.\<close>

lemma calculateTotals_eq:
  "calculateTotals c =
     c\<lparr>subtotal := parseFloat (toFixed2 (items_sum (items c))),
       shippingCost :=
         (if parseFloat (toFixed2 (items_sum (items c))) > 50 then 0 else BASE_SHIPPING),
       tax := parseFloat (toFixed2
         (js_mul (parseFloat (toFixed2 (items_sum (items c)))) TAX_RATE)),
       total := parseFloat (toFixed2
         (js_sub
           (js_add
             (js_add (parseFloat (toFixed2 (items_sum (items c))))
               (parseFloat (toFixed2
                  (js_mul (parseFloat (toFixed2 (items_sum (items c)))) TAX_RATE))))
             (if parseFloat (toFixed2 (items_sum (items c))) > 50 then 0 else BASE_SHIPPING))
           (couponDiscount c)))\<rparr>"
  by (simp add: calculateTotals_def Let_def items_sum_def SHIPPING_THRESHOLD_def)

text \<open>The same, one step at a time.\<close>

lemma calculateTotals_run:
  assumes "parseFloat (toFixed2 (items_sum (items c))) = s"
    and "(if s > 50 then 0 else BASE_SHIPPING) = sh"
    and "parseFloat (toFixed2 (js_mul s TAX_RATE)) = t"
    and "parseFloat (toFixed2 (js_sub (js_add (js_add s t) sh) (couponDiscount c))) = tot"
  shows "calculateTotals c = c\<lparr>subtotal := s, shippingCost := sh, tax := t, total := tot\<rparr>"
  unfolding calculateTotals_eq [of c] assms by (rule refl)

lemma calculateTotals_fields [simp]:
  "items (calculateTotals c) = items c"
  "user (calculateTotals c) = user c"
  "couponCode (calculateTotals c) = couponCode c"
  "couponDiscount (calculateTotals c) = couponDiscount c"
  by (simp_all add: calculateTotals_def Let_def)

lemma calculateTotals_fresh: "totals_fresh (calculateTotals c)"
  by (simp add: totals_fresh_def calculateTotals_eq)

text \<open>Recomputing a second time changes nothing.\<close>

lemma calculateTotals_idem: "calculateTotals (calculateTotals c) = calculateTotals c"
  by (simp add: calculateTotals_eq [of "calculateTotals c"]) (simp add: calculateTotals_eq)

lemma items_sum_nonneg_aux:
  "0 \<le> a \<Longrightarrow> \<forall>item\<in>set xs. valid_item item \<Longrightarrow>
     0 \<le> foldl (\<lambda>sum item. js_add sum (js_mul (discountedPrice item) (of_int (quantity item))))
       a xs"
proof (induction xs arbitrary: a)
  case Nil
  then show ?case by simp
next
  case (Cons x xs)
  from Cons.prems have "0 \<le> discountedPrice x" and "0 \<le> (of_int (quantity x) :: rat)"
    by (simp_all add: valid_item_def)
  then have "0 \<le> js_add a (js_mul (discountedPrice x) (of_int (quantity x)))"
    using Cons.prems(1) by (intro js_nonneg)
  with Cons.IH Cons.prems(2) show ?case by simp
qed

lemma items_sum_nonneg: "\<forall>item\<in>set xs. valid_item item \<Longrightarrow> 0 \<le> items_sum xs"
  unfolding items_sum_def by (rule items_sum_nonneg_aux) simp_all

text \<open>The totals of a cart without items and without a coupon discount.\<close>

lemma calculateTotals_empty:
  assumes "items c = []" and "couponDiscount c = 0"
  shows "calculateTotals c =
     c\<lparr>subtotal := 0, shippingCost := parseFloat (599 / 100), tax := 0,
       total := parseFloat (599 / 100)\<rparr>"
proof (rule calculateTotals_run)
  show "parseFloat (toFixed2 (items_sum (items c))) = 0"
    using assms(1) by (simp add: items_sum_def)
  show "(if 0 > (50 :: rat) then 0 else BASE_SHIPPING) = parseFloat (599 / 100)"
    by (simp add: BASE_SHIPPING_def)
  show "parseFloat (toFixed2 (js_mul 0 TAX_RATE)) = 0" by simp
  show "parseFloat (toFixed2 (js_sub (js_add (js_add 0 0) (parseFloat (599 / 100)))
      (couponDiscount c))) = parseFloat (599 / 100)"
    using assms(2) by (simp add: js_eval)
qed

section \<open>The item methods\<close>

lemma addItem_new:
  assumes "\<forall>item\<in>set (items c). product item \<noteq> p_id p"
  shows "addItem c p q = calculateTotals (c\<lparr>items := items c @ [new_item p q]\<rparr>)"
proof -
  have "findIndex (\<lambda>item. product item = p_id p) (items c) = None"
    using assms by (simp add: findIndex_None)
  then show ?thesis by (simp add: addItem_def new_item_def)
qed

lemma addItem_existing:
  assumes "findIndex (\<lambda>item. product item = p_id p) (items c) = Some i"
  shows "items (addItem c p q) =
     (items c)[i := (items c ! i)\<lparr>quantity := castNumber (js_plus (quantity (items c ! i)) q)\<rparr>]"
  using assms by (simp add: addItem_def)

lemma addItem_recomputed: "calculateTotals (addItem c p q) = addItem c p q"
  by (simp add: addItem_def calculateTotals_idem)

lemma couponDiscount_addItem [simp]: "couponDiscount (addItem c p q) = couponDiscount c"
  by (simp add: addItem_def split: option.splits)

lemma couponDiscount_updateItemQuantity [simp]:
  "couponDiscount (snd (updateItemQuantity c pid q)) = couponDiscount c"
  by (simp add: updateItemQuantity_def split: option.splits)

lemma couponDiscount_removeItem [simp]:
  "couponDiscount (snd (removeItem c pid)) = couponDiscount c"
  by (simp add: removeItem_def split: option.splits)

section \<open>Examples\<close>

text \<open>
  The scenario of the specification: an empty cart, then two of a product at 30 with
  no discount: subtotal 60.00, free shipping, tax 4.80, total 64.80. \<^verbatim>\<open>FREESHIP\<close>
  then discounts the shipping cost of 0 and leaves the total as it is.
\<close>

lemma stored_tea_cart: "calculateTotals tea_cart = tea_cart"
proof -
  have "calculateTotals tea_cart = tea_cart\<lparr>subtotal := 60, shippingCost := 0,
      tax := parseFloat (48 / 10), total := parseFloat (648 / 10)\<rparr>"
  proof (rule calculateTotals_run)
    show "parseFloat (toFixed2 (items_sum (items tea_cart))) = 60"
      by (simp add: tea_cart_def items_sum_def js_eval)
    show "(if 60 > (50 :: rat) then 0 else BASE_SHIPPING) = 0" by simp
    show "parseFloat (toFixed2 (js_mul 60 TAX_RATE)) = parseFloat (48 / 10)"
      by (simp add: js_eval)
    show "parseFloat (toFixed2 (js_sub (js_add (js_add 60 (parseFloat (48 / 10))) 0)
        (couponDiscount tea_cart))) = parseFloat (648 / 10)"
      by (simp add: tea_cart_def js_eval)
  qed
  then show ?thesis by (simp add: tea_cart_def)
qed

lemma p_discountedPrice_tea: "p_discountedPrice tea = 30"
  by (simp add: p_discountedPrice_def tea_def js_eval)

lemma scenario_add: "addItem (new_cart ''u1'') tea (Num 2) = tea_cart"
proof -
  have "addItem (new_cart ''u1'') tea (Num 2) =
      calculateTotals ((new_cart ''u1'')\<lparr>items := items (new_cart ''u1'') @ [new_item tea (Num 2)]\<rparr>)"
    by (rule addItem_new) (simp add: new_cart_def)
  also have "(new_cart ''u1'')\<lparr>items := items (new_cart ''u1'') @ [new_item tea (Num 2)]\<rparr> =
      tea_cart\<lparr>subtotal := 0, tax := 0, total := 0\<rparr>"
    by (simp add: new_cart_def new_item_def p_discountedPrice_tea tea_cart_def) (simp add: tea_def)
  also have "calculateTotals (tea_cart\<lparr>subtotal := 0, tax := 0, total := 0\<rparr>) =
      calculateTotals tea_cart"
    by (simp add: calculateTotals_eq)
  finally show ?thesis by (simp add: stored_tea_cart)
qed

lemma scenario_freeship:
  "snd (applyCoupon ''FREESHIP'' tea_cart) = tea_cart\<lparr>couponCode := Some ''FREESHIP''\<rparr>"
proof -
  have "snd (applyCoupon ''FREESHIP'' tea_cart) =
      calculateTotals (tea_cart\<lparr>couponCode := Some ''FREESHIP'', couponDiscount := 0\<rparr>)"
    by (simp add: applyCoupon_def Let_def) (simp add: tea_cart_def)
  also have "\<dots> = (calculateTotals tea_cart)\<lparr>couponCode := Some ''FREESHIP''\<rparr>"
    by (simp add: calculateTotals_eq) (simp add: tea_cart_def)
  finally show ?thesis by (simp add: stored_tea_cart)
qed

text \<open>
  The other stored carts of the examples hold the totals that \<open>calculateTotals\<close>
  gives them.
\<close>

lemma stored_one_tea_cart: "calculateTotals one_tea_cart = one_tea_cart"
proof -
  have "calculateTotals one_tea_cart = one_tea_cart\<lparr>subtotal := 30,
      shippingCost := parseFloat (599 / 100), tax := parseFloat (24 / 10),
      total := parseFloat (3839 / 100)\<rparr>"
  proof (rule calculateTotals_run)
    show "parseFloat (toFixed2 (items_sum (items one_tea_cart))) = 30"
      by (simp add: one_tea_cart_def items_sum_def js_eval)
    show "(if 30 > (50 :: rat) then 0 else BASE_SHIPPING) = parseFloat (599 / 100)"
      by (simp add: BASE_SHIPPING_def)
    show "parseFloat (toFixed2 (js_mul 30 TAX_RATE)) = parseFloat (24 / 10)"
      by (simp add: js_eval)
    show "parseFloat (toFixed2 (js_sub (js_add (js_add 30 (parseFloat (24 / 10)))
        (parseFloat (599 / 100))) (couponDiscount one_tea_cart))) = parseFloat (3839 / 100)"
      by (simp add: one_tea_cart_def js_eval)
  qed
  then show ?thesis by (simp add: one_tea_cart_def)
qed

lemma stored_mug_cart: "calculateTotals mug_cart = mug_cart"
proof -
  have "calculateTotals mug_cart = mug_cart\<lparr>subtotal := 100, shippingCost := 0, tax := 8,
      total := 108\<rparr>"
  proof (rule calculateTotals_run)
    show "parseFloat (toFixed2 (items_sum (items mug_cart))) = 100"
      by (simp add: mug_cart_def items_sum_def js_eval)
    show "(if 100 > (50 :: rat) then 0 else BASE_SHIPPING) = 0" by simp
    show "parseFloat (toFixed2 (js_mul 100 TAX_RATE)) = 8"
      by (simp add: js_eval)
    show "parseFloat (toFixed2 (js_sub (js_add (js_add 100 8) 0) (couponDiscount mug_cart))) = 108"
      by (simp add: mug_cart_def js_eval)
  qed
  then show ?thesis by (simp add: mug_cart_def)
qed

lemma stored_ribbon_cart: "calculateTotals ribbon_cart = ribbon_cart"
proof -
  have "calculateTotals ribbon_cart = ribbon_cart\<lparr>subtotal := 43 / 4,
      shippingCost := parseFloat (599 / 100), tax := parseFloat (86 / 100),
      total := parseFloat (176 / 10)\<rparr>"
  proof (rule calculateTotals_run)
    show "parseFloat (toFixed2 (items_sum (items ribbon_cart))) = 43 / 4"
      by (simp add: ribbon_cart_def items_sum_def js_eval)
    show "(if 43 / 4 > (50 :: rat) then 0 else BASE_SHIPPING) = parseFloat (599 / 100)"
      by (simp add: BASE_SHIPPING_def)
    show "parseFloat (toFixed2 (js_mul (43 / 4) TAX_RATE)) = parseFloat (86 / 100)"
      by (simp add: js_eval)
    show "parseFloat (toFixed2 (js_sub (js_add (js_add (43 / 4) (parseFloat (86 / 100)))
        (parseFloat (599 / 100))) (couponDiscount ribbon_cart))) = parseFloat (176 / 10)"
      by (simp add: ribbon_cart_def js_eval)
  qed
  then show ?thesis by (simp add: ribbon_cart_def)
qed

text \<open>
  Where binary64 shows. An item stored as 1.005 (the number nearest to it lies below
  it) has the subtotal 1.00. A product at 68.50 with 27 per cent off has the
  discounted price 50.004999999999995 and so the subtotal 50.00, which pays shipping,
  where the exact price 50.005 would round to 50.01 and ship free. A product at 1.75
  with 10 per cent off has the subtotal 1.57, where the exact price 1.575 would round
  to 1.58.
\<close>

lemma badge_subtotal: "subtotal (calculateTotals badge_cart) = 1"
  by (simp add: calculateTotals_eq badge_cart_def items_sum_def js_eval)

lemma scarf_totals:
  "subtotal (addItem (new_cart ''u7'') scarf (Num 1)) = 50"
  "shippingCost (addItem (new_cart ''u7'') scarf (Num 1)) = parseFloat (599 / 100)"
  "round_half_up2 (137 / 2 * (1 - 27 / 100)) = 5001 / 100"
proof -
  have dp: "p_discountedPrice scarf = 439848631575511 / 8796093022208"
    by (simp add: p_discountedPrice_def scarf_def js_eval)
  have s: "parseFloat (toFixed2 (js_add 0 (js_mul (439848631575511 / 8796093022208) 1))) = 50"
    by (simp add: js_eval)
  have a: "addItem (new_cart ''u7'') scarf (Num 1) =
      calculateTotals ((new_cart ''u7'')\<lparr>items := items (new_cart ''u7'') @ [new_item scarf (Num 1)]\<rparr>)"
    by (rule addItem_new) (simp add: new_cart_def)
  show "subtotal (addItem (new_cart ''u7'') scarf (Num 1)) = 50"
    unfolding a by (simp add: calculateTotals_eq new_cart_def new_item_def dp items_sum_def s)
  show "shippingCost (addItem (new_cart ''u7'') scarf (Num 1)) = parseFloat (599 / 100)"
    unfolding a
    by (simp add: calculateTotals_eq new_cart_def new_item_def dp items_sum_def s
        BASE_SHIPPING_def)
  show "round_half_up2 (137 / 2 * (1 - 27 / 100)) = 5001 / 100"
    by (simp add: round_half_up2_def)
qed

lemma pen_subtotal:
  "subtotal (addItem (new_cart ''u8'') pen (Num 1)) = parseFloat (157 / 100)"
  "round_half_up2 (7 / 4 * (1 - 10 / 100)) = 158 / 100"
proof -
  have dp: "p_discountedPrice pen = 7093169413108531 / 4503599627370496"
    by (simp add: p_discountedPrice_def pen_def js_eval)
  have s: "parseFloat (toFixed2 (js_add 0 (js_mul (7093169413108531 / 4503599627370496) 1))) =
      parseFloat (157 / 100)"
    by (simp add: js_eval)
  have a: "addItem (new_cart ''u8'') pen (Num 1) =
      calculateTotals ((new_cart ''u8'')\<lparr>items := items (new_cart ''u8'') @ [new_item pen (Num 1)]\<rparr>)"
    by (rule addItem_new) (simp add: new_cart_def)
  show "subtotal (addItem (new_cart ''u8'') pen (Num 1)) = parseFloat (157 / 100)"
    unfolding a by (simp add: calculateTotals_eq new_cart_def new_item_def dp items_sum_def s)
  show "round_half_up2 (7 / 4 * (1 - 10 / 100)) = 158 / 100"
    by (simp add: round_half_up2_def)
qed

section \<open>Carts that the handlers build\<close>

lemma cart_ok_calculateTotals [simp]: "cart_ok (calculateTotals c) = cart_ok c"
  by (simp add: cart_ok_def)

lemma cart_ok_new_cart: "cart_ok (new_cart u)"
  by (simp add: cart_ok_def new_cart_def)

text \<open>
  A product with prices that are not negative, added in a quantity that the router
  accepts, here a number.
\<close>

lemma cart_ok_addItem:
  assumes "cart_ok c" and "0 \<le> p_price p" and "0 \<le> p_discountedPrice p" and "1 \<le> q"
  shows "cart_ok (addItem c p (Num q))"
proof -
  have new: "valid_item (new_item p (Num q))"
    using assms(2-4) by (simp add: valid_item_def new_item_def)
  have old: "\<forall>item\<in>set (items c). valid_item item"
    using assms(1) by (simp add: cart_ok_def)
  show ?thesis
  proof (cases "findIndex (\<lambda>item. product item = p_id p) (items c)")
    case None
    then have "addItem c p (Num q) = calculateTotals (c\<lparr>items := items c @ [new_item p (Num q)]\<rparr>)"
      by (simp add: addItem_def new_item_def)
    with old new show ?thesis by (simp add: cart_ok_def)
  next
    case (Some i)
    then have i: "i < length (items c)" by (simp add: findIndex_Some)
    then have "valid_item (items c ! i)" using old by simp
    then have v: "valid_item ((items c ! i)\<lparr>quantity := quantity (items c ! i) + q\<rparr>)"
      using assms(4) by (simp add: valid_item_def)
    have "\<forall>item\<in>set ((items c)[i := (items c ! i)\<lparr>quantity := quantity (items c ! i) + q\<rparr>]).
        valid_item item"
      using old v set_update_subset_insert [of "items c" i] by blast
    with Some show ?thesis by (simp add: addItem_def cart_ok_def)
  qed
qed

lemma cart_ok_updateItemQuantity:
  assumes "cart_ok c"
  shows "cart_ok (snd (updateItemQuantity c pid q))"
proof -
  have old: "\<forall>item\<in>set (items c). valid_item item"
    using assms(1) by (simp add: cart_ok_def)
  show ?thesis
  proof (cases "findIndex (\<lambda>item. product item = pid) (items c)")
    case None
    with assms show ?thesis by (simp add: updateItemQuantity_def)
  next
    case (Some i)
    then have i: "i < length (items c)" by (simp add: findIndex_Some)
    show ?thesis
    proof (cases "q \<le> 0")
      case True
      have "\<forall>item\<in>set (splice1 i (items c)). valid_item item"
        using old set_splice1 [of i "items c"] by blast
      with Some True show ?thesis
        by (simp add: updateItemQuantity_def cart_ok_def)
    next
      case False
      have "valid_item (items c ! i)" using old i by simp
      then have v: "valid_item ((items c ! i)\<lparr>quantity := q\<rparr>)"
        using False by (simp add: valid_item_def)
      have "\<forall>item\<in>set ((items c)[i := (items c ! i)\<lparr>quantity := q\<rparr>]). valid_item item"
        using old v set_update_subset_insert [of "items c" i] by blast
      with Some False show ?thesis
        by (simp add: updateItemQuantity_def cart_ok_def)
    qed
  qed
qed

lemma cart_ok_removeItem:
  assumes "cart_ok c"
  shows "cart_ok (snd (removeItem c pid))"
proof (cases "findIndex (\<lambda>item. product item = pid) (items c)")
  case None
  with assms show ?thesis by (simp add: removeItem_def)
next
  case (Some i)
  have "\<forall>item\<in>set (splice1 i (items c)). valid_item item"
    using assms set_splice1 [of i "items c"] unfolding cart_ok_def by blast
  then show ?thesis using Some by (simp add: removeItem_def cart_ok_def)
qed

lemma cart_ok_clearCart: "cart_ok (clearCart c)"
  by (simp add: cart_ok_def clearCart_def)

lemma cart_ok_applyCoupon: "cart_ok c \<Longrightarrow> cart_ok (snd (applyCoupon code c))"
  by (simp add: applyCoupon_def Let_def) (simp add: cart_ok_def)

lemma cart_ok_removeCoupon: "cart_ok c \<Longrightarrow> cart_ok (snd (removeCoupon c))"
  by (simp add: removeCoupon_def Let_def) (simp add: cart_ok_def)

text \<open>
  Two calls of \<open>addItem\<close> with numbers as quantities: on a cart without the product
  they leave one new line item with the sum of the two quantities and the name and
  prices of the first call; on a cart with the product they add both quantities to the
  first line item for it.
\<close>

lemma addItem_twice_numbers:
  assumes "p_id p' = p_id p"
  shows "((\<forall>item\<in>set (items c). product item \<noteq> p_id p) \<longrightarrow>
            items (addItem (addItem c p (Num q1)) p' (Num q2)) =
              items c @
                [\<lparr>product = p_id p, name = p_name p, price = p_price p,
                  discountedPrice =
                    (if p_discountedPrice p \<noteq> 0 then p_discountedPrice p else p_price p),
                  quantity = q1 + q2, image = p_image p\<rparr>] \<and>
            length (filter (\<lambda>item. product item = p_id p)
              (items (addItem (addItem c p (Num q1)) p' (Num q2)))) = 1) \<and>
         (\<forall>i. findIndex (\<lambda>item. product item = p_id p) (items c) = Some i \<longrightarrow>
            items (addItem (addItem c p (Num q1)) p' (Num q2)) =
              (items c)[i := (items c ! i)\<lparr>quantity := quantity (items c ! i) + q1 + q2\<rparr>])"
proof (intro conjI impI allI)
  let ?c1 = "addItem c p (Num q1)"
  assume absent: "\<forall>item\<in>set (items c). product item \<noteq> p_id p"
  have c1: "items ?c1 = items c @ [new_item p (Num q1)]"
    using absent by (simp add: addItem_new)
  have "findIndex (\<lambda>item. product item = p_id p') (items ?c1) = Some (length (items c))"
    unfolding c1 using absent assms by (intro findIndex_append_new) (simp_all add: new_item_def)
  then have "items (addItem ?c1 p' (Num q2)) =
      (items ?c1)[length (items c) :=
        (items ?c1 ! length (items c))\<lparr>quantity :=
          castNumber (js_plus (quantity (items ?c1 ! length (items c))) (Num q2))\<rparr>]"
    by (rule addItem_existing)
  then have both: "items (addItem ?c1 p' (Num q2)) = items c @ [new_item p (Num (q1 + q2))]"
    by (simp add: c1 new_item_def)
  then show "items (addItem ?c1 p' (Num q2)) =
      items c @
        [\<lparr>product = p_id p, name = p_name p, price = p_price p,
          discountedPrice =
            (if p_discountedPrice p \<noteq> 0 then p_discountedPrice p else p_price p),
          quantity = q1 + q2, image = p_image p\<rparr>]"
    by (simp add: new_item_def)
  have "filter (\<lambda>item. product item = p_id p) (items c) = []"
    using absent by (simp add: filter_empty_conv)
  then show "length (filter (\<lambda>item. product item = p_id p) (items (addItem ?c1 p' (Num q2)))) = 1"
    by (simp add: both new_item_def)
next
  fix i
  let ?c1 = "addItem c p (Num q1)"
  let ?it = "(items c ! i)\<lparr>quantity := quantity (items c ! i) + q1\<rparr>"
  assume found: "findIndex (\<lambda>item. product item = p_id p) (items c) = Some i"
  then have i: "i < length (items c)" by (simp add: findIndex_Some)
  have c1: "items ?c1 = (items c)[i := ?it]"
    using addItem_existing [OF found, of "Num q1"] by simp
  have "findIndex (\<lambda>item. product item = p_id p') (items ?c1) = Some i"
    unfolding c1 assms using i found by (simp add: findIndex_update)
  then have "items (addItem ?c1 p' (Num q2)) =
      (items ?c1)[i := (items ?c1 ! i)\<lparr>quantity :=
        castNumber (js_plus (quantity (items ?c1 ! i)) (Num q2))\<rparr>]"
    by (rule addItem_existing)
  then show "items (addItem ?c1 p' (Num q2)) =
      (items c)[i := (items c ! i)\<lparr>quantity := quantity (items c ! i) + q1 + q2\<rparr>]"
    using i by (simp add: c1)
qed

section \<open>The claims\<close>

text \<open>
  C1. After every mutating operation (\<open>addItem\<close>, \<open>updateItemQuantity\<close>,
  \<open>removeItem\<close>, \<open>clearCart\<close>, applying a coupon, removing a coupon) that goes
  through, the stored totals are the ones of the cart as the operation leaves it: the
  subtotal is the rounded sum over its items, the tax is the rounded tax on that
  subtotal, and the total is subtotal + tax + shippingCost - couponDiscount rounded to
  two decimal places (sums and products as the source takes them, in binary64). After
  each of them but \<open>clearCart\<close> a further \<open>calculateTotals\<close> would change nothing at
  all.
\<close>

theorem totals_after_mutation:
  "totals_fresh (addItem c p q) \<and> calculateTotals (addItem c p q) = addItem c p q \<and>
   (fst (updateItemQuantity c pid n) = None \<longrightarrow>
      totals_fresh (snd (updateItemQuantity c pid n)) \<and>
      calculateTotals (snd (updateItemQuantity c pid n)) = snd (updateItemQuantity c pid n)) \<and>
   (fst (removeItem c pid) = None \<longrightarrow>
      totals_fresh (snd (removeItem c pid)) \<and>
      calculateTotals (snd (removeItem c pid)) = snd (removeItem c pid)) \<and>
   totals_fresh (clearCart c) \<and>
   (fst (fst (applyCoupon code c)) = 200 \<longrightarrow>
      totals_fresh (snd (applyCoupon code c)) \<and>
      calculateTotals (snd (applyCoupon code c)) = snd (applyCoupon code c)) \<and>
   totals_fresh (snd (removeCoupon c)) \<and>
   calculateTotals (snd (removeCoupon c)) = snd (removeCoupon c)"
proof -
  have "totals_fresh (addItem c p q) \<and> calculateTotals (addItem c p q) = addItem c p q"
    by (simp add: addItem_def calculateTotals_fresh calculateTotals_idem)
  moreover have "fst (updateItemQuantity c pid n) = None \<longrightarrow>
      totals_fresh (snd (updateItemQuantity c pid n)) \<and>
      calculateTotals (snd (updateItemQuantity c pid n)) = snd (updateItemQuantity c pid n)"
    by (simp add: updateItemQuantity_def calculateTotals_fresh calculateTotals_idem
        split: option.splits)
  moreover have "fst (removeItem c pid) = None \<longrightarrow>
      totals_fresh (snd (removeItem c pid)) \<and>
      calculateTotals (snd (removeItem c pid)) = snd (removeItem c pid)"
    by (simp add: removeItem_def calculateTotals_fresh calculateTotals_idem
        split: option.splits)
  moreover have "totals_fresh (clearCart c)"
    by (simp add: clearCart_def totals_fresh_def items_sum_def)
  moreover have "fst (fst (applyCoupon code c)) = 200 \<longrightarrow>
      totals_fresh (snd (applyCoupon code c)) \<and>
      calculateTotals (snd (applyCoupon code c)) = snd (applyCoupon code c)"
    by (simp add: applyCoupon_def Let_def calculateTotals_fresh calculateTotals_idem)
  moreover have "totals_fresh (snd (removeCoupon c)) \<and>
      calculateTotals (snd (removeCoupon c)) = snd (removeCoupon c)"
    by (simp add: removeCoupon_def Let_def calculateTotals_fresh calculateTotals_idem)
  ultimately show ?thesis by blast
qed

theorem totals_after_mutation_witness:
  "fst (updateItemQuantity tea_cart ''p1'' 3) = None \<and>
   fst (removeItem tea_cart ''p1'') = None \<and>
   fst (fst (applyCoupon ''WELCOME10'' tea_cart)) = 200 \<and>
   totals_fresh (addItem tea_cart tea (Num 1)) \<and>
   totals_fresh (snd (updateItemQuantity tea_cart ''p1'' 3)) \<and>
   totals_fresh (snd (removeItem tea_cart ''p1'')) \<and>
   totals_fresh (clearCart tea_cart) \<and>
   totals_fresh (snd (applyCoupon ''WELCOME10'' tea_cart)) \<and>
   totals_fresh (snd (removeCoupon tea_cart))"
proof -
  have "fst (updateItemQuantity tea_cart ''p1'' 3) = None"
    by (simp add: updateItemQuantity_def tea_cart_def)
  moreover have "fst (removeItem tea_cart ''p1'') = None"
    by (simp add: removeItem_def tea_cart_def)
  moreover have "fst (fst (applyCoupon ''WELCOME10'' tea_cart)) = 200"
    by (simp add: applyCoupon_def Let_def)
  ultimately show ?thesis
    using totals_after_mutation [of tea_cart tea "Num 1" "''p1''" 3 "''WELCOME10''"] by blast
qed

text \<open>
  C2. As the claim has it, with exact sums and products, the subtotal of three items
  stored at 0.045 would be 0.13; \<open>calculateTotals\<close> stores 0.14, because it works in
  binary64. What holds, on a cart whose line items are within the bounds of the
  schema: \<open>calculateTotals\<close> computes, in this order and each step in binary64
  arithmetic, the subtotal, the left-to-right sum of the products discountedPrice *
  quantity over the line items, rounded half-up to two decimal places; the shipping
  cost, 0 when the subtotal is strictly greater than 50 and 5.99 otherwise; the tax,
  the product of the subtotal and 0.08, rounded half-up; the total, ((subtotal + tax)
  + shippingCost) - couponDiscount, its magnitude rounded half-up. Each step rounds on
  its own, reads the rounded results of the steps before it, and stores the number
  nearest to the rounded decimal.
\<close>

theorem calculateTotals_steps:
  assumes "\<forall>item\<in>set (items c). valid_item item"
  shows "subtotal (calculateTotals c) =
           parseFloat (round_half_up2
             (foldl (\<lambda>sum item. js_add sum (js_mul (discountedPrice item) (of_int (quantity item))))
                0 (items c))) \<and>
         shippingCost (calculateTotals c) =
           (if subtotal (calculateTotals c) > 50 then 0 else parseFloat (599 / 100)) \<and>
         tax (calculateTotals c) =
           parseFloat (round_half_up2
             (js_mul (subtotal (calculateTotals c)) (parseFloat (8 / 100)))) \<and>
         total (calculateTotals c) =
           parseFloat
             (let x = js_sub
                    (js_add (js_add (subtotal (calculateTotals c)) (tax (calculateTotals c)))
                       (shippingCost (calculateTotals c)))
                    (couponDiscount c)
              in if x < 0 then - round_half_up2 (- x) else round_half_up2 x) \<and>
         user (calculateTotals c) = user c \<and> items (calculateTotals c) = items c \<and>
         couponCode (calculateTotals c) = couponCode c \<and>
         couponDiscount (calculateTotals c) = couponDiscount c"
proof -
  have sum: "0 \<le> items_sum (items c)" using assms by (rule items_sum_nonneg)
  then have "0 \<le> parseFloat (round_half_up2 (items_sum (items c)))"
    using toFixed2_ge0 [OF sum] by (simp add: toFixed2_nonneg js_nonneg)
  moreover have "0 \<le> parseFloat (8 / 100)" by (simp add: js_nonneg)
  ultimately have
    tax: "0 \<le> js_mul (parseFloat (round_half_up2 (items_sum (items c)))) (parseFloat (8 / 100))"
    by (rule js_nonneg)
  show ?thesis
    using sum tax
    by (simp add: calculateTotals_eq Let_def toFixed2_magnitude TAX_RATE_def BASE_SHIPPING_def
        items_sum_def)
qed

theorem calculateTotals_steps_witness:
  "list_all valid_item (items fifty_cart) \<and>
   subtotal (calculateTotals fifty_cart) = 50 \<and>
   shippingCost (calculateTotals fifty_cart) = parseFloat (599 / 100) \<and>
   tax (calculateTotals fifty_cart) = 4 \<and>
   total (calculateTotals fifty_cart) = parseFloat (5999 / 100)"
proof -
  have v: "\<forall>item\<in>set (items fifty_cart). valid_item item"
    by (simp add: fifty_cart_def valid_item_def)
  note steps = calculateTotals_steps [OF v]
  have "parseFloat (round_half_up2
      (foldl (\<lambda>sum item. js_add sum (js_mul (discountedPrice item) (of_int (quantity item))))
         0 (items fifty_cart))) = 50"
    by (simp add: fifty_cart_def round_half_up2_def js_eval)
  with steps [THEN conjunct1] have s: "subtotal (calculateTotals fifty_cart) = 50"
    by (rule trans)
  have "(if (50 :: rat) > 50 then 0 else parseFloat (599 / 100)) = parseFloat (599 / 100)"
    by simp
  with steps [THEN conjunct2, THEN conjunct1, unfolded s]
  have sh: "shippingCost (calculateTotals fifty_cart) = parseFloat (599 / 100)"
    by (rule trans)
  have "parseFloat (round_half_up2 (js_mul 50 (parseFloat (8 / 100)))) = 4"
    by (simp add: round_half_up2_def js_eval)
  with steps [THEN conjunct2, THEN conjunct2, THEN conjunct1, unfolded s]
  have t: "tax (calculateTotals fifty_cart) = 4"
    by (rule trans)
  have "parseFloat
      (let x = js_sub (js_add (js_add 50 4) (parseFloat (599 / 100))) (couponDiscount fifty_cart)
       in if x < 0 then - round_half_up2 (- x) else round_half_up2 x) = parseFloat (5999 / 100)"
    by (simp add: fifty_cart_def round_half_up2_def js_eval)
  with steps [THEN conjunct2, THEN conjunct2, THEN conjunct2, THEN conjunct1, unfolded s sh t]
  have tot: "total (calculateTotals fifty_cart) = parseFloat (5999 / 100)"
    by (rule trans)
  have "list_all valid_item (items fifty_cart)"
    using v by (simp add: list_all_iff)
  with s sh t tot show ?thesis by (intro conjI)
qed

theorem calculateTotals_exact_counterexample:
  "subtotal (calculateTotals sweets_cart) = parseFloat (14 / 100) \<and>
   round_half_up2 (\<Sum>item\<leftarrow>items sweets_cart. discountedPrice item * of_int (quantity item)) =
     13 / 100 \<and>
   subtotal (calculateTotals sweets_cart) \<noteq>
     parseFloat (round_half_up2
       (\<Sum>item\<leftarrow>items sweets_cart. discountedPrice item * of_int (quantity item)))"
proof -
  have code: "subtotal (calculateTotals sweets_cart) = parseFloat (14 / 100)"
    by (simp add: calculateTotals_eq sweets_cart_def items_sum_def js_eval)
  have exact: "round_half_up2
      (\<Sum>item\<leftarrow>items sweets_cart. discountedPrice item * of_int (quantity item)) = 13 / 100"
    by (simp add: sweets_cart_def round_half_up2_def js_eval)
  have ne: "parseFloat (14 / 100) \<noteq> parseFloat (13 / 100)"
    by (simp add: js_eval)
  show ?thesis unfolding code exact by (intro conjI refl ne)
qed

text \<open>
  C3. The claim holds when both quantities reach \<open>addItem\<close> as numbers, and fails on
  a request the router lets through: with two of a product in the cart and the
  quantity sent as the string \<^verbatim>\<open>"3"\<close>, the line item ends with the quantity 23, not
  5. In a cart without the product the same string is stored as 3.
\<close>

theorem addItem_string_quantity:
  "items (addItem (addItem (new_cart ''u1'') tea (Num 2)) tea (Str ''3'')) =
     [\<lparr>product = ''p1'', name = ''Tea'', price = 30, discountedPrice = 30, quantity = 23,
       image = None\<rparr>] \<and>
   items (addItem (addItem (new_cart ''u1'') tea (Num 2)) tea (Num 3)) =
     [\<lparr>product = ''p1'', name = ''Tea'', price = 30, discountedPrice = 30, quantity = 5,
       image = None\<rparr>] \<and>
   items (addItem (new_cart ''u1'') tea (Str ''3'')) =
     [\<lparr>product = ''p1'', name = ''Tea'', price = 30, discountedPrice = 30, quantity = 3,
       image = None\<rparr>]"
proof -
  have found: "findIndex (\<lambda>item. product item = p_id tea) (items tea_cart) = Some 0"
    by (simp add: tea_cart_def tea_def)
  have "items (addItem tea_cart tea (Str ''3'')) =
     [\<lparr>product = ''p1'', name = ''Tea'', price = 30, discountedPrice = 30, quantity = 23,
       image = None\<rparr>]"
    unfolding addItem_existing [OF found]
    by (simp add: tea_cart_def two_plus_string_three)
  moreover have "items (addItem tea_cart tea (Num 3)) =
     [\<lparr>product = ''p1'', name = ''Tea'', price = 30, discountedPrice = 30, quantity = 5,
       image = None\<rparr>]"
    unfolding addItem_existing [OF found]
    by (simp add: tea_cart_def)
  moreover have "addItem (new_cart ''u1'') tea (Str ''3'') =
      calculateTotals ((new_cart ''u1'')\<lparr>items := items (new_cart ''u1'') @ [new_item tea (Str ''3'')]\<rparr>)"
    by (rule addItem_new) (simp add: new_cart_def)
  then have "items (addItem (new_cart ''u1'') tea (Str ''3'')) =
     [\<lparr>product = ''p1'', name = ''Tea'', price = 30, discountedPrice = 30, quantity = 3,
       image = None\<rparr>]"
    by (simp add: new_cart_def new_item_def p_discountedPrice_tea castNumber_string_three)
      (simp add: tea_def)
  ultimately show ?thesis by (simp add: scenario_add)
qed

text \<open>
  C4. When the cart has a line item for \<open>pid\<close>, the first of them at index \<open>i\<close>,
  \<open>updateItemQuantity\<close> returns normally; with \<open>q \<le> 0\<close> it deletes that line
  item, with \<open>q > 0\<close> it sets the quantity of that line item to \<open>q\<close>, whatever
  the quantity was; in both cases the totals are recomputed from the new item list.
\<close>

theorem updateItemQuantity_found:
  assumes "i < length (items c)" and "product (items c ! i) = pid"
    and "\<forall>j<i. product (items c ! j) \<noteq> pid"
  shows "updateItemQuantity c pid q =
     (None, calculateTotals
        (c\<lparr>items :=
           (if q \<le> 0 then take i (items c) @ drop (Suc i) (items c)
            else (items c)[i := (items c ! i)\<lparr>quantity := q\<rparr>])\<rparr>))"
proof -
  have "findIndex (\<lambda>item. product item = pid) (items c) = Some i"
    using assms by (simp add: findIndex_Some)
  then show ?thesis by (simp add: updateItemQuantity_def splice1_def)
qed

theorem updateItemQuantity_found_witness:
  "0 < length (items tea_cart) \<and> product (items tea_cart ! 0) = ''p1'' \<and>
   updateItemQuantity tea_cart ''p1'' 0 =
     (None, tea_cart\<lparr>items := [], subtotal := 0, shippingCost := parseFloat (599 / 100),
        tax := 0, total := parseFloat (599 / 100)\<rparr>) \<and>
   updateItemQuantity tea_cart ''p1'' 1 =
     (None, tea_cart\<lparr>items := [\<lparr>product = ''p1'', name = ''Tea'', price = 30,
          discountedPrice = 30, quantity = 1, image = None\<rparr>],
        subtotal := 30, shippingCost := parseFloat (599 / 100), tax := parseFloat (24 / 10),
        total := parseFloat (3839 / 100)\<rparr>)"
proof -
  have a: "0 < length (items tea_cart)" by (simp add: tea_cart_def)
  have b: "product (items tea_cart ! 0) = ''p1''" by (simp add: tea_cart_def)
  have c: "\<forall>j<0::nat. product (items tea_cart ! j) \<noteq> ''p1''" by simp
  have its: "items tea_cart = [\<lparr>product = ''p1'', name = ''Tea'', price = 30,
      discountedPrice = 30, quantity = 2, image = None\<rparr>]"
    and cd: "couponDiscount tea_cart = 0"
    by (simp_all add: tea_cart_def)
  have none: "calculateTotals (tea_cart\<lparr>items := []\<rparr>) =
      tea_cart\<lparr>items := [], subtotal := 0, shippingCost := parseFloat (599 / 100), tax := 0,
        total := parseFloat (599 / 100)\<rparr>"
    by (rule calculateTotals_empty) (simp_all add: cd)
  have one: "calculateTotals (tea_cart\<lparr>items := [\<lparr>product = ''p1'', name = ''Tea'',
          price = 30, discountedPrice = 30, quantity = 1, image = None\<rparr>]\<rparr>) =
      tea_cart\<lparr>items := [\<lparr>product = ''p1'', name = ''Tea'', price = 30,
          discountedPrice = 30, quantity = 1, image = None\<rparr>],
        subtotal := 30, shippingCost := parseFloat (599 / 100), tax := parseFloat (24 / 10),
        total := parseFloat (3839 / 100)\<rparr>"
  proof (rule calculateTotals_run)
    show "parseFloat (toFixed2 (items_sum (items (tea_cart\<lparr>items := [\<lparr>product = ''p1'',
        name = ''Tea'', price = 30, discountedPrice = 30, quantity = 1, image = None\<rparr>]\<rparr>)))) = 30"
      by (simp add: items_sum_def js_eval)
    show "(if 30 > (50 :: rat) then 0 else BASE_SHIPPING) = parseFloat (599 / 100)"
      by (simp add: BASE_SHIPPING_def)
    show "parseFloat (toFixed2 (js_mul 30 TAX_RATE)) = parseFloat (24 / 10)"
      by (simp add: js_eval)
    show "parseFloat (toFixed2 (js_sub (js_add (js_add 30 (parseFloat (24 / 10)))
        (parseFloat (599 / 100))) (couponDiscount (tea_cart\<lparr>items := [\<lparr>product = ''p1'',
        name = ''Tea'', price = 30, discountedPrice = 30, quantity = 1, image = None\<rparr>]\<rparr>)))) =
        parseFloat (3839 / 100)"
      by (simp add: cd js_eval)
  qed
  have "updateItemQuantity tea_cart ''p1'' 0 =
     (None, tea_cart\<lparr>items := [], subtotal := 0, shippingCost := parseFloat (599 / 100),
        tax := 0, total := parseFloat (599 / 100)\<rparr>)"
    unfolding updateItemQuantity_found [OF a b c] by (simp add: its none)
  moreover have "updateItemQuantity tea_cart ''p1'' 1 =
     (None, tea_cart\<lparr>items := [\<lparr>product = ''p1'', name = ''Tea'', price = 30,
          discountedPrice = 30, quantity = 1, image = None\<rparr>],
        subtotal := 30, shippingCost := parseFloat (599 / 100), tax := parseFloat (24 / 10),
        total := parseFloat (3839 / 100)\<rparr>)"
    unfolding updateItemQuantity_found [OF a b c] by (simp add: its one)
  ultimately show ?thesis using a b by blast
qed

text \<open>
  C5. When the cart has no line item for \<open>pid\<close>, \<open>removeItem\<close> and
  \<open>updateItemQuantity\<close> both throw the item-not-found error and leave the cart, every
  field of it, as it was.
\<close>

theorem absent_item_not_found:
  assumes "\<forall>item\<in>set (items c). product item \<noteq> pid"
  shows "removeItem c pid = (Some ItemNotFound, c) \<and>
         updateItemQuantity c pid q = (Some ItemNotFound, c)"
proof -
  have "findIndex (\<lambda>item. product item = pid) (items c) = None"
    using assms by (simp add: findIndex_None)
  then show ?thesis by (simp add: removeItem_def updateItemQuantity_def)
qed

theorem absent_item_not_found_witness:
  "list_all (\<lambda>item. product item \<noteq> ''p9'') (items tea_cart) \<and>
   removeItem tea_cart ''p9'' = (Some ItemNotFound, tea_cart) \<and>
   updateItemQuantity tea_cart ''p9'' 4 = (Some ItemNotFound, tea_cart)"
proof -
  have a: "\<forall>item\<in>set (items tea_cart). product item \<noteq> ''p9''"
    by (simp add: tea_cart_def)
  then have "list_all (\<lambda>item. product item \<noteq> ''p9'') (items tea_cart)"
    by (simp add: list_all_iff)
  with absent_item_not_found [OF a, of 4] show ?thesis by blast
qed

text \<open>
  C6. As the claim has it, \<^verbatim>\<open>WELCOME10\<close> on a subtotal of 10.75 would give a discount
  of 1.08, a tenth rounded to two decimal places; the handler stores 1.07, because the
  product by 0.1 is taken in binary64 and lies below 1.075. What holds: applying
  \<^verbatim>\<open>WELCOME10\<close> stores the code and sets the coupon discount to the binary64 product
  of the stored subtotal and 0.1, rounded to two decimal places. Applying
  \<^verbatim>\<open>FREESHIP\<close> stores the code and sets the coupon discount to the shipping cost
  stored at that moment, and a later \<open>addItem\<close>, \<open>updateItemQuantity\<close> or
  \<open>removeItem\<close> leaves it at that value. Any other code is answered with status 400
  and the cart is left as it was.
\<close>

theorem coupon_codes:
  "couponCode (snd (applyCoupon ''WELCOME10'' c)) = Some ''WELCOME10'' \<and>
   couponDiscount (snd (applyCoupon ''WELCOME10'' c)) =
     parseFloat (toFixed2 (js_mul (subtotal c) (parseFloat (1 / 10)))) \<and>
   couponCode (snd (applyCoupon ''FREESHIP'' c)) = Some ''FREESHIP'' \<and>
   couponDiscount (snd (applyCoupon ''FREESHIP'' c)) = shippingCost c \<and>
   couponDiscount (addItem (snd (applyCoupon ''FREESHIP'' c)) p q) = shippingCost c \<and>
   couponDiscount (snd (updateItemQuantity (snd (applyCoupon ''FREESHIP'' c)) pid n)) =
     shippingCost c \<and>
   couponDiscount (snd (removeItem (snd (applyCoupon ''FREESHIP'' c)) pid)) = shippingCost c \<and>
   (code \<noteq> ''WELCOME10'' \<and> code \<noteq> ''FREESHIP'' \<longrightarrow>
      fst (fst (applyCoupon code c)) = 400 \<and> snd (applyCoupon code c) = c)"
proof -
  have w: "snd (applyCoupon ''WELCOME10'' c) =
      calculateTotals (c\<lparr>couponCode := Some ''WELCOME10'',
        couponDiscount := parseFloat (toFixed2 (js_mul (subtotal c) (parseFloat (1 / 10))))\<rparr>)"
    by (simp add: applyCoupon_def Let_def)
  have f: "snd (applyCoupon ''FREESHIP'' c) =
      calculateTotals (c\<lparr>couponCode := Some ''FREESHIP'', couponDiscount := shippingCost c\<rparr>)"
    by (simp add: applyCoupon_def Let_def)
  have other: "code \<noteq> ''WELCOME10'' \<and> code \<noteq> ''FREESHIP'' \<longrightarrow>
      fst (fst (applyCoupon code c)) = 400 \<and> snd (applyCoupon code c) = c"
    by (simp add: applyCoupon_def)
  show ?thesis
    using other by (simp add: w f)
qed

theorem coupon_codes_witness:
  "''SUMMER'' \<noteq> ''WELCOME10'' \<and> ''SUMMER'' \<noteq> ''FREESHIP'' \<and>
   fst (fst (applyCoupon ''SUMMER'' mug_cart)) = 400 \<and>
   snd (applyCoupon ''SUMMER'' mug_cart) = mug_cart \<and>
   couponDiscount (snd (applyCoupon ''WELCOME10'' mug_cart)) = 10 \<and>
   couponDiscount (snd (applyCoupon ''FREESHIP'' one_tea_cart)) = parseFloat (599 / 100) \<and>
   couponDiscount (addItem (snd (applyCoupon ''FREESHIP'' one_tea_cart)) tea (Num 1)) =
     parseFloat (599 / 100) \<and>
   shippingCost (addItem (snd (applyCoupon ''FREESHIP'' one_tea_cart)) tea (Num 1)) = 0"
proof -
  have a: "''SUMMER'' \<noteq> ''WELCOME10'' \<and> ''SUMMER'' \<noteq> ''FREESHIP''" by simp
  have w: "parseFloat (toFixed2 (js_mul (subtotal mug_cart) (parseFloat (1 / 10)))) = 10"
    by (simp add: mug_cart_def js_eval)
  have s: "shippingCost one_tea_cart = parseFloat (599 / 100)" by (simp add: one_tea_cart_def)
  have found: "findIndex (\<lambda>item. product item = p_id tea)
      (items (snd (applyCoupon ''FREESHIP'' one_tea_cart))) = Some 0"
    by (simp add: applyCoupon_def Let_def one_tea_cart_def tea_def)
  have its: "items (addItem (snd (applyCoupon ''FREESHIP'' one_tea_cart)) tea (Num 1)) =
      [\<lparr>product = ''p1'', name = ''Tea'', price = 30, discountedPrice = 30, quantity = 2,
        image = None\<rparr>]"
    unfolding addItem_existing [OF found]
    by (simp add: applyCoupon_def Let_def one_tea_cart_def)
  have "shippingCost (addItem (snd (applyCoupon ''FREESHIP'' one_tea_cart)) tea (Num 1)) =
      shippingCost (calculateTotals (addItem (snd (applyCoupon ''FREESHIP'' one_tea_cart)) tea (Num 1)))"
    by (simp add: addItem_recomputed)
  also have "\<dots> = 0"
    unfolding calculateTotals_eq [of "addItem (snd (applyCoupon ''FREESHIP'' one_tea_cart)) tea (Num 1)"]
    by (simp add: its items_sum_def js_eval)
  finally have sh: "shippingCost (addItem (snd (applyCoupon ''FREESHIP'' one_tea_cart)) tea (Num 1)) = 0" .
  from coupon_codes [of mug_cart tea "Num 1" "''p1''" 1 "''SUMMER''"]
    coupon_codes [of one_tea_cart tea "Num 1" "''p1''" 1 "''SUMMER''"] a w s sh
  show ?thesis by simp
qed

theorem welcome10_counterexample:
  "subtotal ribbon_cart = 1075 / 100 \<and>
   couponDiscount (snd (applyCoupon ''WELCOME10'' ribbon_cart)) = parseFloat (107 / 100) \<and>
   round_half_up2 (subtotal ribbon_cart / 10) = 108 / 100 \<and>
   couponDiscount (snd (applyCoupon ''WELCOME10'' ribbon_cart)) \<noteq>
     parseFloat (round_half_up2 (subtotal ribbon_cart / 10))"
proof -
  have sub: "subtotal ribbon_cart = 1075 / 100" by (simp add: ribbon_cart_def)
  have "snd (applyCoupon ''WELCOME10'' ribbon_cart) =
      calculateTotals (ribbon_cart\<lparr>couponCode := Some ''WELCOME10'',
        couponDiscount :=
          parseFloat (toFixed2 (js_mul (subtotal ribbon_cart) (parseFloat (1 / 10))))\<rparr>)"
    by (simp add: applyCoupon_def Let_def)
  then have "couponDiscount (snd (applyCoupon ''WELCOME10'' ribbon_cart)) =
      parseFloat (toFixed2 (js_mul (subtotal ribbon_cart) (parseFloat (1 / 10))))"
    by simp
  also have "\<dots> = parseFloat (107 / 100)"
    by (simp add: ribbon_cart_def js_eval)
  finally have code: "couponDiscount (snd (applyCoupon ''WELCOME10'' ribbon_cart)) =
      parseFloat (107 / 100)" .
  have exact: "round_half_up2 (subtotal ribbon_cart / 10) = 108 / 100"
    by (simp add: ribbon_cart_def round_half_up2_def)
  have ne: "parseFloat (107 / 100) \<noteq> parseFloat (108 / 100)"
    by (simp add: js_eval)
  show ?thesis unfolding code exact by (intro conjI sub refl ne)
qed

text \<open>
  C7. \<open>clearCart\<close> has no failing branch, and on every cart it leaves an empty item
  list, subtotal, tax, shipping cost and total 0, no coupon code and a coupon discount
  of 0; only the owner of the cart is kept.
\<close>

theorem clearCart_resets:
  "clearCart c =
     \<lparr>user = user c, items = [], subtotal = 0, tax = 0, shippingCost = 0, total = 0,
      couponCode = None, couponDiscount = 0\<rparr>"
  by (simp add: clearCart_def)

text \<open>
  C8. For an order cancelled by its owner: the request is answered with status 400,
  the collection of orders unchanged, if and only if the status of the order is
  Delivered; from every other status, Cancelled among them, it is answered with status
  200 and the order is stored with the status Cancelled.
\<close>

theorem cancel_guard:
  assumes "orders oid = Some odr" and "userId odr = u"
  shows "cancel orders oid u =
           (if status odr = Delivered
            then ((400, Message ''Cannot cancel a delivered order''), orders)
            else ((200, Doc (odr\<lparr>status := Cancelled\<rparr>)),
                  orders(oid \<mapsto> odr\<lparr>status := Cancelled\<rparr>))) \<and>
         (fst (fst (cancel orders oid u)) = 400 \<longleftrightarrow> status odr = Delivered)"
  using assms by (simp add: cancel_def Let_def)

theorem cancel_guard_witness:
  "example_orders ''o1'' = Some \<lparr>userId = ''u1'', status = Delivered, trackingNumber = None\<rparr> \<and>
   example_orders ''o2'' = Some \<lparr>userId = ''u1'', status = Cancelled, trackingNumber = None\<rparr> \<and>
   example_orders ''o3'' =
     Some \<lparr>userId = ''u1'', status = In_Transit, trackingNumber = Some ''T1''\<rparr> \<and>
   cancel example_orders ''o1'' ''u1'' =
     ((400, Message ''Cannot cancel a delivered order''), example_orders) \<and>
   fst (cancel example_orders ''o2'' ''u1'') =
     (200, Doc \<lparr>userId = ''u1'', status = Cancelled, trackingNumber = None\<rparr>) \<and>
   fst (cancel example_orders ''o3'' ''u1'') =
     (200, Doc \<lparr>userId = ''u1'', status = Cancelled, trackingNumber = Some ''T1''\<rparr>) \<and>
   snd (cancel example_orders ''o3'' ''u1'') ''o3'' =
     Some \<lparr>userId = ''u1'', status = Cancelled, trackingNumber = Some ''T1''\<rparr>"
proof -
  have o1: "example_orders ''o1'' =
      Some \<lparr>userId = ''u1'', status = Delivered, trackingNumber = None\<rparr>"
    by (simp add: example_orders_def)
  have o2: "example_orders ''o2'' =
      Some \<lparr>userId = ''u1'', status = Cancelled, trackingNumber = None\<rparr>"
    by (simp add: example_orders_def)
  have o3: "example_orders ''o3'' =
      Some \<lparr>userId = ''u1'', status = In_Transit, trackingNumber = Some ''T1''\<rparr>"
    by (simp add: example_orders_def)
  from cancel_guard [where orders = example_orders and oid = "''o1''", OF o1, of "''u1''"]
    cancel_guard [where orders = example_orders and oid = "''o2''", OF o2, of "''u1''"]
    cancel_guard [where orders = example_orders and oid = "''o3''", OF o3, of "''u1''"]
    o1 o2 o3
  show ?thesis by simp
qed

text \<open>
  C9. When \<open>addItem\<close> appends a new line item for a product: a discount of 100 per
  cent makes the discounted price of the product 0; whenever that discounted price is
  0 the line item stores the full price of the product as its discounted price; and
  when it is greater than 0 the line item stores the discounted price itself.
\<close>

theorem snapshot_price_fallback:
  assumes "\<forall>item\<in>set (items c). product item \<noteq> p_id p"
  shows "length (items (addItem c p q)) = Suc (length (items c)) \<and>
         product (last (items (addItem c p q))) = p_id p \<and>
         (discountPercentage p = 100 \<longrightarrow> p_discountedPrice p = 0) \<and>
         (p_discountedPrice p = 0 \<longrightarrow>
            discountedPrice (last (items (addItem c p q))) = p_price p) \<and>
         (0 < p_discountedPrice p \<longrightarrow>
            discountedPrice (last (items (addItem c p q))) = p_discountedPrice p)"
proof -
  have "items (addItem c p q) = items c @ [new_item p q]"
    using assms by (simp add: addItem_new)
  moreover have "discountPercentage p = 100 \<longrightarrow> p_discountedPrice p = 0"
    by (simp add: p_discountedPrice_def js_eval)
  ultimately show ?thesis by (simp add: new_item_def)
qed

theorem snapshot_price_fallback_witness:
  "list_all (\<lambda>item. product item \<noteq> p_id free_sample) (items tea_cart) \<and>
   discountPercentage free_sample = 100 \<and> p_discountedPrice free_sample = 0 \<and>
   discountedPrice (last (items (addItem tea_cart free_sample (Num 1)))) = 20 \<and>
   list_all (\<lambda>item. product item \<noteq> p_id tea_repriced) (items (new_cart ''u1'')) \<and>
   0 < p_discountedPrice tea_repriced \<and>
   discountedPrice (last (items (addItem (new_cart ''u1'') tea_repriced (Num 1)))) = 63 / 2"
proof -
  have a: "\<forall>item\<in>set (items tea_cart). product item \<noteq> p_id free_sample"
    by (simp add: tea_cart_def free_sample_def)
  have b: "discountPercentage free_sample = 100" "p_price free_sample = 20"
    by (simp_all add: free_sample_def)
  have c: "\<forall>item\<in>set (items (new_cart ''u1'')). product item \<noteq> p_id tea_repriced"
    by (simp add: new_cart_def)
  have d: "p_discountedPrice tea_repriced = 63 / 2"
    by (simp add: tea_repriced_def p_discountedPrice_def js_eval)
  from snapshot_price_fallback [OF a, of "Num 1"] snapshot_price_fallback [OF c, of "Num 1"]
    a b c d
  show ?thesis by (simp add: list_all_iff)
qed

text \<open>
  C10. For a cart with exactly one line item and no coupon, \<open>removeItem\<close> of that
  item, and \<open>updateItemQuantity\<close> of it to 0, return normally and leave an empty
  cart with shipping cost 5.99 and total 5.99 (the number nearest to 5.99, the one that
  the literal of the source denotes), while \<open>clearCart\<close> leaves an empty cart with
  shipping cost 0 and total 0.
\<close>

theorem last_item_removed:
  assumes "items c = [item]" and "couponCode c = None" and "couponDiscount c = 0"
  shows "fst (removeItem c (product item)) = None \<and>
         items (snd (removeItem c (product item))) = [] \<and>
         shippingCost (snd (removeItem c (product item))) = parseFloat (599 / 100) \<and>
         total (snd (removeItem c (product item))) = parseFloat (599 / 100) \<and>
         fst (updateItemQuantity c (product item) 0) = None \<and>
         items (snd (updateItemQuantity c (product item) 0)) = [] \<and>
         shippingCost (snd (updateItemQuantity c (product item) 0)) = parseFloat (599 / 100) \<and>
         total (snd (updateItemQuantity c (product item) 0)) = parseFloat (599 / 100) \<and>
         items (clearCart c) = [] \<and> shippingCost (clearCart c) = 0 \<and> total (clearCart c) = 0"
proof -
  have r: "removeItem c (product item) = (None, calculateTotals (c\<lparr>items := []\<rparr>))"
    using assms(1) by (simp add: removeItem_def splice1_def)
  have u: "updateItemQuantity c (product item) 0 = (None, calculateTotals (c\<lparr>items := []\<rparr>))"
    using assms(1) by (simp add: updateItemQuantity_def splice1_def)
  have "calculateTotals (c\<lparr>items := []\<rparr>) =
      c\<lparr>items := [], subtotal := 0, shippingCost := parseFloat (599 / 100), tax := 0,
        total := parseFloat (599 / 100)\<rparr>"
    by (rule calculateTotals_empty) (simp_all add: assms(3))
  then show ?thesis by (simp add: r u clearCart_def)
qed

theorem last_item_removed_witness:
  "items tea_cart = [\<lparr>product = ''p1'', name = ''Tea'', price = 30, discountedPrice = 30,
       quantity = 2, image = None\<rparr>] \<and>
   couponCode tea_cart = None \<and> couponDiscount tea_cart = 0 \<and>
   total (snd (removeItem tea_cart ''p1'')) = parseFloat (599 / 100) \<and>
   total (snd (updateItemQuantity tea_cart ''p1'' 0)) = parseFloat (599 / 100) \<and>
   total (clearCart tea_cart) = 0"
proof -
  have a: "items tea_cart = [\<lparr>product = ''p1'', name = ''Tea'', price = 30,
      discountedPrice = 30, quantity = 2, image = None\<rparr>]"
    and b: "couponCode tea_cart = None" and c: "couponDiscount tea_cart = 0"
    by (simp_all add: tea_cart_def)
  from last_item_removed [OF a b c] a b c show ?thesis by simp
qed

end
